theory Spec2Isabelle
  imports Complex_Main
begin

section \<open>SnakeKit Studio: the data model of App.tsx\<close>

text \<open>
  The development embeds \<^verbatim>\<open>src/src/App.tsx\<close>: the live engine (the React state of
  \<^verbatim>\<open>App\<close> with its keyboard, swipe, timer and button handlers), the script that
  \<^verbatim>\<open>exportHTML\<close> embeds in the browser artifact, and the loop that \<^verbatim>\<open>doExport\<close>
  embeds in the Python artifact.

  Conventions of the embedding:
  \<^item> coordinates and the score are JavaScript numbers that only ever hold integers
    (grid indices, sums of \<open>\<plusminus>1\<close>), so they are \<open>int\<close>;
  \<^item> a React state cell is a field of the record \<open>AppState\<close>; a handler is a function
    from the state before the event to the state after the batched updates;
  \<^item> the cell key \<^verbatim>\<open>${x},${y}\<close> is a string that determines the pair \<open>(x, y)\<close> and is
    determined by it, so a key is the pair and a \<^verbatim>\<open>Set<string>\<close> of keys is a set of pairs;
  \<^item> a value drawn from \<^verbatim>\<open>Math.random()\<close> is an argument of the function that draws it;
  \<^item> the fields of \<^verbatim>\<open>Position\<close> are called \<open>pos_x\<close> and \<open>pos_y\<close>, those of
    \<^verbatim>\<open>BuilderCell\<close> \<open>cell_x\<close>, \<open>cell_y\<close> and \<open>kind\<close>.
\<close>

record Position =
  pos_x :: int
  pos_y :: int

datatype CellKind = Food | Obstacle

record BuilderCell =
  cell_x :: int
  cell_y :: int
  kind :: CellKind

datatype Dir = UP | DOWN | LEFT | RIGHT

record GameConfig =
  gridSize :: int
  initialSnake :: "Position list"
  initialDir :: Dir
  cfg_obstacles :: "Position list"
  cfg_foods :: "Position list"
  cfg_speed :: int

type_synonym key = "int \<times> int"

definition GRID_SIZE :: int where
  "GRID_SIZE = 20"

definition START_SNAKE :: "Position list" where
  "START_SNAKE =
     [\<lparr>pos_x = GRID_SIZE div 2 - 1, pos_y = GRID_SIZE div 2\<rparr>,
      \<lparr>pos_x = GRID_SIZE div 2, pos_y = GRID_SIZE div 2\<rparr>,
      \<lparr>pos_x = GRID_SIZE div 2 + 1, pos_y = GRID_SIZE div 2\<rparr>]"

definition keyFor :: "Position \<Rightarrow> key" where
  "keyFor p = (pos_x p, pos_y p)"

subsection \<open>The food spawner of the live engine\<close>

text \<open>
  \<^verbatim>\<open>randomEmptyCell\<close> collects the free cells row by row (\<open>y\<close> outer, \<open>x\<close> inner) and
  returns \<^verbatim>\<open>empty[Math.floor(Math.random() * empty.length)]\<close>. The argument \<open>r\<close> is the
  value of \<^verbatim>\<open>Math.floor(Math.random() * empty.length)\<close>; reading an array past its end
  gives \<^verbatim>\<open>undefined\<close>, which the caller's \<^verbatim>\<open>if (spawn)\<close> treats like \<^verbatim>\<open>null\<close>.
\<close>

definition emptyCells :: "key set \<Rightarrow> int \<Rightarrow> Position list" where
  "emptyCells occupied g =
     concat (map (\<lambda>cy. concat (map (\<lambda>cx.
         if (cx, cy) \<in> occupied then [] else [\<lparr>pos_x = cx, pos_y = cy\<rparr>]) [0..g - 1])) [0..g - 1])"

definition randomEmptyCell :: "key set \<Rightarrow> int \<Rightarrow> nat \<Rightarrow> Position option" where
  "randomEmptyCell occupied g r =
     (let empty = emptyCells occupied g in
      if length empty = 0 then None
      else if r < length empty then Some (empty ! r) else None)"

subsection \<open>Array helpers\<close>

text \<open>\<^verbatim>\<open>Array.prototype.findIndex\<close>: the first index whose element satisfies the
  predicate, \<open>-1\<close> when there is none.\<close>

fun findIndex :: "('a \<Rightarrow> bool) \<Rightarrow> 'a list \<Rightarrow> int" where
  "findIndex P [] = -1"
| "findIndex P (a # as) =
     (if P a then 0 else (let i = findIndex P as in if i < 0 then -1 else i + 1))"

text \<open>\<^verbatim>\<open>arr.splice(i, 1)\<close> for an index \<open>i \<ge> 0\<close>: the array without its element \<open>i\<close>.\<close>

definition splice1 :: "int \<Rightarrow> 'a list \<Rightarrow> 'a list" where
  "splice1 i xs = take (nat i) xs @ drop (nat i + 1) xs"

section \<open>The live engine\<close>

record AppState =
  builder :: "BuilderCell list"
  snake :: "Position list"
  dir :: Dir
  foods :: "Position list"
  obstacles :: "Position list"
  speed :: int
  paused :: bool
  gameOver :: bool
  score :: int
  touchStart :: "(int \<times> int) option"

text \<open>The exceptions of the three runtimes: a JavaScript TypeError, and Python's
  IndexError and KeyError.\<close>

datatype error = TypeError | IndexError | KeyError

definition initialFoods :: "BuilderCell list \<Rightarrow> Position list" where
  "initialFoods b =
     map (\<lambda>c. \<lparr>pos_x = cell_x c, pos_y = cell_y c\<rparr>) (filter (\<lambda>c. kind c = Food) b)"

definition initialObstacles :: "BuilderCell list \<Rightarrow> Position list" where
  "initialObstacles b =
     map (\<lambda>c. \<lparr>pos_x = cell_x c, pos_y = cell_y c\<rparr>) (filter (\<lambda>c. kind c = Obstacle) b)"

text \<open>The state of \<^verbatim>\<open>App\<close> at its first render.\<close>

definition initialState :: AppState where
  "initialState =
     \<lparr>builder = [], snake = START_SNAKE, dir = RIGHT, foods = initialFoods [],
      obstacles = initialObstacles [], speed = 8, paused = False, gameOver = False,
      score = 0, touchStart = None\<rparr>"

subsection \<open>The tick\<close>

text \<open>The candidate head: the four \<^verbatim>\<open>if (dir === ...)\<close> statements of the callback.\<close>

definition nextX :: "Position \<Rightarrow> Dir \<Rightarrow> int" where
  "nextX head d =
     (let nx = pos_x head;
          nx = (if d = LEFT then nx - 1 else nx);
          nx = (if d = RIGHT then nx + 1 else nx)
      in nx)"

definition nextY :: "Position \<Rightarrow> Dir \<Rightarrow> int" where
  "nextY head d =
     (let ny = pos_y head;
          ny = (if d = UP then ny - 1 else ny);
          ny = (if d = DOWN then ny + 1 else ny)
      in ny)"

definition hitsWall :: "int \<Rightarrow> int \<Rightarrow> bool" where
  "hitsWall nx ny \<longleftrightarrow> nx < 0 \<or> ny < 0 \<or> nx \<ge> GRID_SIZE \<or> ny \<ge> GRID_SIZE"

definition occupies :: "Position list \<Rightarrow> int \<Rightarrow> int \<Rightarrow> bool" where
  "occupies cells nx ny \<longleftrightarrow> list_ex (\<lambda>p. pos_x p = nx \<and> pos_y p = ny) cells"

text \<open>
  The callback of \<^verbatim>\<open>setInterval\<close>. \<^verbatim>\<open>snake[0]\<close> of an empty array is
  \<^verbatim>\<open>undefined\<close> and reading \<^verbatim>\<open>head.x\<close> throws a TypeError. The two \<^verbatim>\<open>setFoods\<close> calls
  of the eating branch are batched: the second one appends to the value the first one set.
\<close>

definition tickCallback :: "AppState \<Rightarrow> nat \<Rightarrow> error + AppState" where
  "tickCallback s r =
     (case snake s of
        [] \<Rightarrow> Inl TypeError
      | head # _ \<Rightarrow>
          let nx = nextX head (dir s); ny = nextY head (dir s) in
          if hitsWall nx ny then Inr (s\<lparr>gameOver := True\<rparr>)
          else if occupies (snake s) nx ny then Inr (s\<lparr>gameOver := True\<rparr>)
          else if occupies (obstacles s) nx ny then Inr (s\<lparr>gameOver := True\<rparr>)
          else
            let nextSnake = \<lparr>pos_x = nx, pos_y = ny\<rparr> # snake s;
                eatIndex = findIndex (\<lambda>f. pos_x f = nx \<and> pos_y f = ny) (foods s)
            in
              if eatIndex \<ge> 0 then
                let newFoods = splice1 eatIndex (foods s);
                    occupied = set (map keyFor nextSnake @ map keyFor (obstacles s));
                    spawn = randomEmptyCell occupied GRID_SIZE r
                in Inr (s\<lparr>score := score s + 1,
                          foods := (case spawn of None \<Rightarrow> newFoods | Some p \<Rightarrow> newFoods @ [p]),
                          snake := nextSnake\<rparr>)
              else Inr (s\<lparr>snake := butlast nextSnake\<rparr>))"

text \<open>The effect that owns the timer returns early while \<^verbatim>\<open>paused || gameOver\<close>: no
  interval exists then, and a tick changes nothing.\<close>

definition tick :: "AppState \<Rightarrow> nat \<Rightarrow> error + AppState" where
  "tick s r = (if paused s \<or> gameOver s then Inr s else tickCallback s r)"

text \<open>Several ticks in a row, one draw per tick; an exception ends the run.\<close>

fun ticks :: "AppState \<Rightarrow> nat list \<Rightarrow> error + AppState" where
  "ticks s [] = Inr s"
| "ticks s (r # rs) = (case tick s r of Inl e \<Rightarrow> Inl e | Inr s' \<Rightarrow> ticks s' rs)"

subsection \<open>Direction input: keyboard and swipe\<close>

text \<open>The key names the keyboard handler of \<^verbatim>\<open>App\<close> recognises (\<^verbatim>\<open>nd\<close> stays
  \<^verbatim>\<open>null\<close> for every other key).\<close>

definition keyToDir :: "string \<Rightarrow> Dir option" where
  "keyToDir k =
     (if k = ''ArrowUp'' \<or> k = ''w'' \<or> k = ''W'' then Some UP
      else if k = ''ArrowDown'' \<or> k = ''s'' \<or> k = ''S'' then Some DOWN
      else if k = ''ArrowLeft'' \<or> k = ''a'' \<or> k = ''A'' then Some LEFT
      else if k = ''ArrowRight'' \<or> k = ''d'' \<or> k = ''D'' then Some RIGHT
      else None)"

definition opposite :: "Dir \<Rightarrow> Dir \<Rightarrow> bool" where
  "opposite d nd \<longleftrightarrow>
     (d = UP \<and> nd = DOWN) \<or> (d = DOWN \<and> nd = UP) \<or>
     (d = LEFT \<and> nd = RIGHT) \<or> (d = RIGHT \<and> nd = LEFT)"

definition onKey :: "AppState \<Rightarrow> string \<Rightarrow> AppState" where
  "onKey s k =
     (case keyToDir k of
        None \<Rightarrow> s
      | Some nd \<Rightarrow>
          if \<not> opposite (dir s) nd then
            (case nd of
               UP \<Rightarrow> s\<lparr>dir := UP\<rparr>
             | DOWN \<Rightarrow> s\<lparr>dir := DOWN\<rparr>
             | LEFT \<Rightarrow> s\<lparr>dir := LEFT\<rparr>
             | RIGHT \<Rightarrow> s\<lparr>dir := RIGHT\<rparr>)
          else s)"

text \<open>The swipe handlers of the canvas. Client coordinates are taken in whole pixels.\<close>

definition onTouchStart :: "AppState \<Rightarrow> int \<Rightarrow> int \<Rightarrow> AppState" where
  "onTouchStart s cx cy = s\<lparr>touchStart := Some (cx, cy)\<rparr>"

definition onTouchEnd :: "AppState \<Rightarrow> int \<Rightarrow> int \<Rightarrow> AppState" where
  "onTouchEnd s cx cy =
     (case touchStart s of
        None \<Rightarrow> s
      | Some (sx, sy) \<Rightarrow>
          let dx = cx - sx; dy = cy - sy;
              s1 = (if \<bar>dx\<bar> > \<bar>dy\<bar> then
                      (if dx > 20 then s\<lparr>dir := RIGHT\<rparr>
                       else if dx < -20 then s\<lparr>dir := LEFT\<rparr> else s)
                    else
                      (if dy > 20 then s\<lparr>dir := DOWN\<rparr>
                       else if dy < -20 then s\<lparr>dir := UP\<rparr> else s))
          in s1\<lparr>touchStart := None\<rparr>)"

subsection \<open>Pause, restart and the builder\<close>

definition togglePause :: "AppState \<Rightarrow> AppState" where
  "togglePause s = s\<lparr>paused := \<not> paused s\<rparr>"

text \<open>The \<^verbatim>\<open>onClick\<close> of the Restart button.\<close>

definition restart :: "AppState \<Rightarrow> AppState" where
  "restart s = s\<lparr>snake := START_SNAKE, dir := RIGHT, score := 0, gameOver := False\<rparr>"

text \<open>
  \<^verbatim>\<open>setBuilder\<close> with a new array: \<^verbatim>\<open>initialFoods\<close> and \<^verbatim>\<open>initialObstacles\<close> are
  memoised on \<^verbatim>\<open>builder\<close>, and the two effects that depend on them copy them into
  \<^verbatim>\<open>foods\<close> and \<^verbatim>\<open>obstacles\<close>.
\<close>

definition setBuilder :: "AppState \<Rightarrow> BuilderCell list \<Rightarrow> AppState" where
  "setBuilder s b = s\<lparr>builder := b, foods := initialFoods b, obstacles := initialObstacles b\<rparr>"

definition addToBuilder :: "AppState \<Rightarrow> CellKind \<Rightarrow> AppState" where
  "addToBuilder s k =
     (let cx = GRID_SIZE div 2; cy = GRID_SIZE div 2 in
      case find (\<lambda>b. cell_x b = cx \<and> cell_y b = cy) (builder s) of
        None \<Rightarrow> setBuilder s (builder s @ [\<lparr>cell_x = cx, cell_y = cy, kind = k\<rparr>])
      | Some _ \<Rightarrow> s)"

text \<open>\<^verbatim>\<open>onDrop\<close>, from the cell \<open>(cx, cy)\<close> it computes out of the pointer position.\<close>

definition onDrop :: "AppState \<Rightarrow> int \<Rightarrow> int \<Rightarrow> CellKind \<Rightarrow> AppState" where
  "onDrop s cx cy k =
     (if cx \<ge> 0 \<and> cy \<ge> 0 \<and> cx < GRID_SIZE \<and> cy < GRID_SIZE then
        (if \<not> list_ex (\<lambda>b. cell_x b = cx \<and> cell_y b = cy) (builder s)
         then setBuilder s (builder s @ [\<lparr>cell_x = cx, cell_y = cy, kind = k\<rparr>])
         else s)
      else s)"

definition clearBuilder :: "AppState \<Rightarrow> AppState" where
  "clearBuilder s = (setBuilder s [])\<lparr>foods := [], obstacles := []\<rparr>"

subsection \<open>Reachable states\<close>

text \<open>The states the application can be in: the first render, and every state one event
  later. A tick that throws leaves no next state. The draw of a tick is left open, so the
  set holds every state the application reaches (and the draw 0 is one the spawner can
  make whenever a cell is free).\<close>

inductive reachable :: "AppState \<Rightarrow> bool" where
  r_init: "reachable initialState"
| r_tick: "reachable s \<Longrightarrow> tick s r = Inr s' \<Longrightarrow> reachable s'"
| r_key: "reachable s \<Longrightarrow> reachable (onKey s k)"
| r_touchStart: "reachable s \<Longrightarrow> reachable (onTouchStart s cx cy)"
| r_touchEnd: "reachable s \<Longrightarrow> reachable (onTouchEnd s cx cy)"
| r_pause: "reachable s \<Longrightarrow> reachable (togglePause s)"
| r_restart: "reachable s \<Longrightarrow> reachable (restart s)"
| r_add: "reachable s \<Longrightarrow> reachable (addToBuilder s k)"
| r_drop: "reachable s \<Longrightarrow> reachable (onDrop s cx cy k)"
| r_clear: "reachable s \<Longrightarrow> reachable (clearBuilder s)"

text \<open>The lifecycle status the two flags encode.\<close>

datatype GameStatus = RUNNING | PAUSED | GAME_OVER

definition status :: "AppState \<Rightarrow> GameStatus" where
  "status s = (if gameOver s then GAME_OVER else if paused s then PAUSED else RUNNING)"

subsection \<open>Play from a valid configuration\<close>

text \<open>A configuration is valid when no obstacle lies on the snake or on the cells Restart
  puts the snake on. \<open>played\<close> holds the states the application reaches from its first
  render when every placement of the builder leaves a valid configuration; ticks, keys,
  swipes, pause and Restart are free.\<close>

definition validConfig :: "AppState \<Rightarrow> bool" where
  "validConfig s \<longleftrightarrow>
     set (obstacles s) \<inter> set (snake s) = {} \<and> set (obstacles s) \<inter> set START_SNAKE = {}"

inductive played :: "AppState \<Rightarrow> bool" where
  p_init: "played initialState"
| p_tick: "played s \<Longrightarrow> tick s r = Inr s' \<Longrightarrow> played s'"
| p_key: "played s \<Longrightarrow> played (onKey s k)"
| p_touchStart: "played s \<Longrightarrow> played (onTouchStart s cx cy)"
| p_touchEnd: "played s \<Longrightarrow> played (onTouchEnd s cx cy)"
| p_pause: "played s \<Longrightarrow> played (togglePause s)"
| p_restart: "played s \<Longrightarrow> played (restart s)"
| p_add: "played s \<Longrightarrow> validConfig (addToBuilder s k) \<Longrightarrow> played (addToBuilder s k)"
| p_drop: "played s \<Longrightarrow> validConfig (onDrop s cx cy k) \<Longrightarrow> played (onDrop s cx cy k)"
| p_clear: "played s \<Longrightarrow> played (clearBuilder s)"

subsection \<open>Event sequences\<close>

text \<open>The events of the live engine, and the run of the application over a list of
  them: the timer firing (with the spawner's draw), a key, the two touch events, and the
  buttons and drops of the page.\<close>

datatype event =
    Tick nat
  | Key string
  | TouchStart int int
  | TouchEnd int int
  | TogglePause
  | Restart
  | AddToBuilder CellKind
  | Drop int int CellKind
  | ClearBuilder

fun handle :: "AppState \<Rightarrow> event \<Rightarrow> error + AppState" where
  "handle s (Tick r) = tick s r"
| "handle s (Key k) = Inr (onKey s k)"
| "handle s (TouchStart cx cy) = Inr (onTouchStart s cx cy)"
| "handle s (TouchEnd cx cy) = Inr (onTouchEnd s cx cy)"
| "handle s TogglePause = Inr (togglePause s)"
| "handle s Restart = Inr (restart s)"
| "handle s (AddToBuilder k) = Inr (addToBuilder s k)"
| "handle s (Drop cx cy k) = Inr (onDrop s cx cy k)"
| "handle s ClearBuilder = Inr (clearBuilder s)"

fun run :: "AppState \<Rightarrow> event list \<Rightarrow> error + AppState" where
  "run s [] = Inr s"
| "run s (e # es) = (case handle s e of Inl err \<Rightarrow> Inl err | Inr s' \<Rightarrow> run s' es)"

section \<open>The browser artifact\<close>

text \<open>
  The script \<^verbatim>\<open>exportHTML\<close> writes between \<^verbatim>\<open><script>\<close> and \<^verbatim>\<open></script>\<close>, read as the
  program its text spells out: the TypeScript annotations it carries (\<^verbatim>\<open>Set<string>\<close>,
  \<^verbatim>\<open>as any\<close>, \<^verbatim>\<open>as string\<close>, \<^verbatim>\<open>as keyof typeof map\<close>) are erased, and the pieces
  \<^verbatim>\<open>${p.x},${p.y}\<close> are the key of the cell \<open>p\<close>. Its state is the script's top-level
  \<^verbatim>\<open>let\<close> variables; \<^verbatim>\<open>dir\<close> is an object \<^verbatim>\<open>{x, y}\<close>, modelled as a \<open>Position\<close>. The
  unused bindings of \<^verbatim>\<open>step\<close> (\<^verbatim>\<open>occ\<close>, \<^verbatim>\<open>f\<close>, \<^verbatim>\<open>newFood\<close>) and of the listener
  (\<^verbatim>\<open>cdir\<close>) are left out. The script keeps no score.
\<close>

record HtmlState =
  h_GRID :: int
  h_snake :: "Position list"
  h_dir :: Position
  h_foods :: "Position list"
  h_obstacles :: "Position list"
  h_paused :: bool
  h_gameOver :: bool

definition exportHTML ::
  "GameConfig \<Rightarrow> Position list \<Rightarrow> Position list \<Rightarrow> Position list \<Rightarrow> HtmlState" where
  "exportHTML config sn fs obs =
     \<lparr>h_GRID = gridSize config, h_snake = sn, h_dir = \<lparr>pos_x = 1, pos_y = 0\<rparr>,
      h_foods = fs, h_obstacles = obs, h_paused = False, h_gameOver = False\<rparr>"

text \<open>
  The draws of one call of the script's \<^verbatim>\<open>spawn\<close>: \<open>d_c\<close> is \<^verbatim>\<open>Math.random()\<close>, and
  \<open>d_p\<close>, \<open>d_q\<close> are the two cells whose coordinates are
  \<^verbatim>\<open>Math.floor(Math.random()*GRID)\<close>.
\<close>

record SpawnDraws =
  d_c :: real
  d_p :: Position
  d_q :: Position

text \<open>\<^verbatim>\<open>new Set(snake.map(...)).add(...obstacles.map(...))\<close>: \<^verbatim>\<open>Set.prototype.add\<close> takes one
  argument, so of the obstacles only the first one's key is added (with no obstacle the
  value added is \<^verbatim>\<open>undefined\<close>, which is no cell's key).\<close>

definition html_occupied :: "Position list \<Rightarrow> Position list \<Rightarrow> key set" where
  "html_occupied sn obs =
     set (map keyFor sn) \<union> (case obs of [] \<Rightarrow> {} | ob # _ \<Rightarrow> {keyFor ob})"

definition html_spawn :: "key set \<Rightarrow> Position list \<Rightarrow> SpawnDraws \<Rightarrow> Position list" where
  "html_spawn occupiedSet fs d =
     (if d_c d > 0 \<and> keyFor (d_p d) \<notin> occupiedSet then fs @ [d_p d]
      else if length fs < 5 then fs @ [d_q d]
      else fs)"

definition html_step :: "HtmlState \<Rightarrow> SpawnDraws \<Rightarrow> error + HtmlState" where
  "html_step h d =
     (if h_gameOver h \<or> h_paused h then Inr h
      else case h_snake h of
        [] \<Rightarrow> Inl TypeError
      | head # _ \<Rightarrow>
          let nx = pos_x head + pos_x (h_dir h); ny = pos_y head + pos_y (h_dir h) in
          if nx < 0 \<or> ny < 0 \<or> nx \<ge> h_GRID h \<or> ny \<ge> h_GRID h then Inr (h\<lparr>h_gameOver := True\<rparr>)
          else
            let hitSelf = list_ex (\<lambda>c. pos_x c = nx \<and> pos_y c = ny) (h_snake h) in
            if hitSelf then Inr (h\<lparr>h_gameOver := True\<rparr>)
            else if list_ex (\<lambda>ob. pos_x ob = nx \<and> pos_y ob = ny) (h_obstacles h)
              then Inr (h\<lparr>h_gameOver := True\<rparr>)
            else
              let ateFoodIndex = findIndex (\<lambda>f. pos_x f = nx \<and> pos_y f = ny) (h_foods h);
                  snake1 = \<lparr>pos_x = nx, pos_y = ny\<rparr> # h_snake h
              in
                if ateFoodIndex \<ge> 0 then
                  let foods1 = splice1 ateFoodIndex (h_foods h);
                      foods2 = html_spawn (html_occupied snake1 (h_obstacles h)) foods1 d
                  in Inr (h\<lparr>h_snake := snake1, h_foods := foods2\<rparr>)
                else Inr (h\<lparr>h_snake := butlast snake1\<rparr>))"

text \<open>
  The script's \<^verbatim>\<open>keydown\<close> listener. It compares the object \<^verbatim>\<open>dir\<close> with string literals
  by \<^verbatim>\<open>===\<close>; \<open>strictEqString v lit\<close> is \<^verbatim>\<open>v === lit\<close> for a string literal \<open>lit\<close>.
\<close>

datatype js_value = JString string | JObject Position

fun strictEqString :: "js_value \<Rightarrow> string \<Rightarrow> bool" where
  "strictEqString (JString a) lit = (a = lit)"
| "strictEqString (JObject _) lit = False"

definition html_keyMap :: "string \<Rightarrow> string option" where
  "html_keyMap k =
     (if k = ''ArrowUp'' then Some ''UP''
      else if k = ''ArrowDown'' then Some ''DOWN''
      else if k = ''ArrowLeft'' then Some ''LEFT''
      else if k = ''ArrowRight'' then Some ''RIGHT''
      else None)"

definition html_onKeydown :: "HtmlState \<Rightarrow> string \<Rightarrow> HtmlState" where
  "html_onKeydown h k =
     (case html_keyMap k of
        None \<Rightarrow> h
      | Some ndir \<Rightarrow>
          let d = JObject (h_dir h);
              opp = (strictEqString d ''UP'' \<and> ndir = ''DOWN'') \<or>
                    (strictEqString d ''DOWN'' \<and> ndir = ''UP'') \<or>
                    (strictEqString d ''LEFT'' \<and> ndir = ''RIGHT'') \<or>
                    (strictEqString d ''RIGHT'' \<and> ndir = ''LEFT'')
          in
            if \<not> opp then
              (if ndir = ''UP'' then h\<lparr>h_dir := \<lparr>pos_x = 0, pos_y = -1\<rparr>\<rparr>
               else if ndir = ''DOWN'' then h\<lparr>h_dir := \<lparr>pos_x = 0, pos_y = 1\<rparr>\<rparr>
               else if ndir = ''LEFT'' then h\<lparr>h_dir := \<lparr>pos_x = -1, pos_y = 0\<rparr>\<rparr>
               else if ndir = ''RIGHT'' then h\<lparr>h_dir := \<lparr>pos_x = 1, pos_y = 0\<rparr>\<rparr>
               else h)
            else h)"

section \<open>The Python artifact\<close>

text \<open>
  \<^verbatim>\<open>self.foods\<close> and \<^verbatim>\<open>self.obstacles\<close> are the text of \<^verbatim>\<open>JSON.stringify\<close>, which Python
  reads as a list of dictionaries \<^verbatim>\<open>{"x": .., "y": ..}\<close>; the snake is a list of tuples.
  A tuple never equals a dictionary, and a dictionary with the keys \<^verbatim>\<open>"x"\<close> and \<^verbatim>\<open>"y"\<close>
  has no item \<open>0\<close>. The loop keeps no score and reads no direction input.
\<close>

datatype py_value = PTuple int int | PDict "(string \<times> int) list"

record PyState =
  py_snake :: "(int \<times> int) list"
  py_dir :: "int \<times> int"
  py_foods :: "py_value list"
  py_obstacles :: "py_value list"
  py_running :: bool

definition jsonCells :: "Position list \<Rightarrow> py_value list" where
  "jsonCells cells = map (\<lambda>c. PDict [(''x'', pos_x c), (''y'', pos_y c)]) cells"

text \<open>\<^verbatim>\<open>SnakeGame.__init__\<close>, for the foods and obstacles \<^verbatim>\<open>doExport\<close> writes into it.\<close>

definition py_init :: "Position list \<Rightarrow> Position list \<Rightarrow> PyState" where
  "py_init fs obs =
     \<lparr>py_snake = [(GRID_SIZE div 2, GRID_SIZE div 2), (GRID_SIZE div 2 - 1, GRID_SIZE div 2),
                  (GRID_SIZE div 2 - 2, GRID_SIZE div 2)],
      py_dir = (1, 0), py_foods = jsonCells fs, py_obstacles = jsonCells obs,
      py_running = True\<rparr>"



text \<open>The drawing part: \<^verbatim>\<open>f[0]\<close> and \<^verbatim>\<open>f[1]\<close> of every food and obstacle.\<close>

fun py_item :: "py_value \<Rightarrow> nat \<Rightarrow> error + int" where
  "py_item (PTuple a b) i = (if i = 0 then Inr a else if i = 1 then Inr b else Inl IndexError)"
| "py_item (PDict kvs) i = Inl KeyError"

definition py_rect :: "py_value \<Rightarrow> error + int \<times> int" where
  "py_rect v =
     (case py_item v 0 of
        Inl e \<Rightarrow> Inl e
      | Inr a \<Rightarrow> (case py_item v 1 of Inl e \<Rightarrow> Inl e | Inr b \<Rightarrow> Inr (a, b)))"

fun py_drawAll :: "py_value list \<Rightarrow> error + unit" where
  "py_drawAll [] = Inr ()"
| "py_drawAll (v # vs) = (case py_rect v of Inl e \<Rightarrow> Inl e | Inr _ \<Rightarrow> py_drawAll vs)"

definition py_draw :: "PyState \<Rightarrow> error + PyState" where
  "py_draw p =
     (case py_drawAll (py_foods p) of
        Inl e \<Rightarrow> Inl e
      | Inr _ \<Rightarrow> (case py_drawAll (py_obstacles p) of Inl e \<Rightarrow> Inl e | Inr _ \<Rightarrow> Inr p))"



section \<open>The export\<close>

text \<open>\<^verbatim>\<open>doExport\<close>: the two artifacts written for the current state.\<close>

definition exportConfig :: "AppState \<Rightarrow> GameConfig" where
  "exportConfig s =
     \<lparr>gridSize = GRID_SIZE, initialSnake = START_SNAKE, initialDir = RIGHT,
      cfg_obstacles = obstacles s, cfg_foods = foods s, cfg_speed = speed s\<rparr>"

definition doExport :: "AppState \<Rightarrow> HtmlState \<times> PyState" where
  "doExport s =
     (exportHTML (exportConfig s) (snake s) (foods s) (obstacles s),
      py_init (foods s) (obstacles s))"

section \<open>The vocabulary of the specification\<close>

text \<open>The unit delta the specification gives each direction (its data model, section 3).\<close>

definition delta :: "Dir \<Rightarrow> int \<times> int" where
  "delta d = (case d of UP \<Rightarrow> (0, -1) | DOWN \<Rightarrow> (0, 1) | LEFT \<Rightarrow> (-1, 0) | RIGHT \<Rightarrow> (1, 0))"

text \<open>The Direction Filter as the specification words it (section 4.1): \<open>requested\<close> unless
  it is the exact opposite of \<open>current\<close>. The handlers of the code are compared with it.\<close>

definition reverse :: "Dir \<Rightarrow> Dir" where
  "reverse d = (case d of UP \<Rightarrow> DOWN | DOWN \<Rightarrow> UP | LEFT \<Rightarrow> RIGHT | RIGHT \<Rightarrow> LEFT)"

definition accept_spec :: "Dir \<Rightarrow> Dir \<Rightarrow> Dir" where
  "accept_spec current requested = (if requested = reverse current then current else requested)"

text \<open>An artifact state that holds the same game as a state of the live engine: the same
  snake, foods, obstacles and flags, and the heading that is the delta of the engine's
  direction. The Python artifact holds cells as \<^verbatim>\<open>doExport\<close> writes them.\<close>

definition sameGame :: "AppState \<Rightarrow> HtmlState \<Rightarrow> bool" where
  "sameGame s h \<longleftrightarrow>
     h_GRID h = GRID_SIZE \<and> h_snake h = snake s \<and> h_foods h = foods s \<and>
     h_obstacles h = obstacles s \<and>
     h_dir h = \<lparr>pos_x = fst (delta (dir s)), pos_y = snd (delta (dir s))\<rparr> \<and>
     h_paused h = paused s \<and> h_gameOver h = gameOver s"


subsection \<open>Input sequences\<close>










abbreviation cell :: "int \<Rightarrow> int \<Rightarrow> Position" where
  "cell a b \<equiv> \<lparr>pos_x = a, pos_y = b\<rparr>"

subsection \<open>Concrete states\<close>

text \<open>A head-first snake on an empty grid, heading RIGHT; the application reaches it from
  its first render by the keys and ticks of \<open>plainPath\<close>.\<close>

definition plainState :: AppState where
  "plainState = initialState\<lparr>snake := [cell 10 10, cell 9 10, cell 8 10]\<rparr>"

definition plainPath :: "event list" where
  "plainPath =
     [Key ''ArrowUp'', Tick 0, Key ''ArrowLeft'', Tick 0, Tick 0, Key ''ArrowDown'', Tick 0,
      Key ''ArrowRight'', Tick 0, Tick 0, Tick 0]"

text \<open>The start state with one food dropped on \<open>(15, 10)\<close>: grid 20, snake
  \<open>[(9,10), (10,10), (11,10)]\<close>, direction RIGHT, no obstacle.\<close>

definition fixtureState :: AppState where
  "fixtureState = onDrop initialState 15 10 Food"

text \<open>The same foods with the snake listed head first, as the Python artifact lists it.\<close>

definition headFirstState :: AppState where
  "headFirstState = onDrop plainState 15 10 Food"

text \<open>Two foods dropped on \<open>(9, 9)\<close> and \<open>(0, 0)\<close>, then ArrowUp: the next tick eats.\<close>

definition twoFoodsState :: AppState where
  "twoFoodsState = onKey (onDrop (onDrop initialState 9 9 Food) 0 0 Food) ''ArrowUp''"

text \<open>The state one tick after \<open>twoFoodsState\<close>, when the spawner draws index 0.\<close>

definition ateState :: AppState where
  "ateState = twoFoodsState\<lparr>score := 1, foods := [cell 0 0, cell 0 0],
      snake := [cell 9 9, cell 9 10, cell 10 10, cell 11 10]\<rparr>"

text \<open>A head-first snake with an obstacle right in front of its head.\<close>

definition obstacleState :: AppState where
  "obstacleState = onDrop plainState 11 10 Obstacle"

text \<open>A snake whose head stands at the right wall: \<open>plainState\<close> nine ticks later.\<close>

definition wallState :: AppState where
  "wallState = initialState\<lparr>snake := [cell 19 10, cell 18 10, cell 17 10]\<rparr>"

text \<open>A head-first snake one cell before a food.\<close>

definition eatingState :: AppState where
  "eatingState = onDrop plainState 11 10 Food"

text \<open>The state one tick after \<open>eatingState\<close>, when the spawner draws index 0.\<close>

definition eatenState :: AppState where
  "eatenState = eatingState\<lparr>score := 1, foods := [cell 0 0],
      snake := [cell 11 10, cell 10 10, cell 9 10, cell 8 10]\<rparr>"

text \<open>Draws of the browser artifact's spawn: a first cell that is taken (it is the new
  head) and a fallback cell on the snake.\<close>

definition takenDraws :: SpawnDraws where
  "takenDraws = \<lparr>d_c = 1 / 2, d_p = cell 11 10, d_q = cell 10 10\<rparr>"

text \<open>An obstacle dropped off the snake on the first render, then ArrowUp.\<close>

definition guardedState :: AppState where
  "guardedState = onKey (onDrop initialState 5 5 Obstacle) ''ArrowUp''"

text \<open>A snake of one cell, heading RIGHT on an empty grid.\<close>

definition oneCellState :: AppState where
  "oneCellState = initialState\<lparr>snake := [cell 5 5]\<rparr>"



section \<open>Lemmas about the engine\<close>

lemmas engine_defs =
  tick_def tickCallback_def Let_def nextX_def nextY_def hitsWall_def occupies_def GRID_SIZE_def
  START_SNAKE_def initialState_def initialFoods_def initialObstacles_def onDrop_def setBuilder_def
  onKey_def keyToDir_def opposite_def splice1_def status_def keyFor_def

lemma next_delta:
  "nextX head d = pos_x head + fst (delta d)" "nextY head d = pos_y head + snd (delta d)"
  by (cases d; simp add: nextX_def nextY_def delta_def)+

lemma findIndex_ge0: "findIndex P xs \<ge> 0 \<longleftrightarrow> list_ex P xs"
  by (induction xs) (auto simp: Let_def)

lemma occupies_mem: "occupies cells nx ny \<longleftrightarrow> cell nx ny \<in> set cells"
  by (induction cells) (auto simp: occupies_def)



lemma emptyCells_first:
  assumes "0 < g" and "(0, 0) \<notin> occupied"
  shows "\<exists>rest. emptyCells occupied g = cell 0 0 # rest"
proof -
  from assms(1) have "[0..g - 1] = 0 # [1..g - 1]"
    by (simp add: upto_rec1)
  with assms(2) show ?thesis
    by (simp add: emptyCells_def)
qed

lemma randomEmptyCell_0:
  "0 < g \<Longrightarrow> (0, 0) \<notin> occupied \<Longrightarrow> randomEmptyCell occupied g 0 = Some (cell 0 0)"
  using emptyCells_first[of g occupied] by (auto simp: randomEmptyCell_def Let_def)

lemma fixtureState_eq:
  "fixtureState = \<lparr>builder = [\<lparr>cell_x = 15, cell_y = 10, kind = Food\<rparr>],
      snake = [cell 9 10, cell 10 10, cell 11 10], dir = RIGHT, foods = [cell 15 10],
      obstacles = [], speed = 8, paused = False, gameOver = False, score = 0, touchStart = None\<rparr>"
  by (simp add: fixtureState_def engine_defs)

lemma twoFoodsState_eq:
  "twoFoodsState =
     \<lparr>builder = [\<lparr>cell_x = 9, cell_y = 9, kind = Food\<rparr>, \<lparr>cell_x = 0, cell_y = 0, kind = Food\<rparr>],
      snake = [cell 9 10, cell 10 10, cell 11 10], dir = UP, foods = [cell 9 9, cell 0 0],
      obstacles = [], speed = 8, paused = False, gameOver = False, score = 0, touchStart = None\<rparr>"
  by (simp add: twoFoodsState_def engine_defs)

lemma obstacleState_eq:
  "obstacleState = \<lparr>builder = [\<lparr>cell_x = 11, cell_y = 10, kind = Obstacle\<rparr>],
      snake = [cell 10 10, cell 9 10, cell 8 10], dir = RIGHT, foods = [],
      obstacles = [cell 11 10], speed = 8, paused = False, gameOver = False, score = 0,
      touchStart = None\<rparr>"
  by (simp add: obstacleState_def plainState_def engine_defs)

lemma eatingState_eq:
  "eatingState = \<lparr>builder = [\<lparr>cell_x = 11, cell_y = 10, kind = Food\<rparr>],
      snake = [cell 10 10, cell 9 10, cell 8 10], dir = RIGHT, foods = [cell 11 10],
      obstacles = [], speed = 8, paused = False, gameOver = False, score = 0, touchStart = None\<rparr>"
  by (simp add: eatingState_def plainState_def engine_defs)

lemma tickCallback_snake:
  assumes "tickCallback s r = Inr s'" and "distinct (snake s)"
  shows "distinct (snake s') \<and> snake s' \<noteq> [] \<and> obstacles s' = obstacles s \<and>
         (gameOver s' \<or>
            set (snake s') \<subseteq> insert (cell (nextX (hd (snake s)) (dir s)) (nextY (hd (snake s)) (dir s)))
              (set (snake s)) \<and>
            \<not> occupies (obstacles s) (nextX (hd (snake s)) (dir s)) (nextY (hd (snake s)) (dir s)))"
  using assms
  by (auto simp: tickCallback_def Let_def occupies_mem distinct_butlast
      split: list.splits if_splits dest: in_set_butlastD)

lemma tick_snake:
  assumes "tick s r = Inr s'" and "distinct (snake s)" and "snake s \<noteq> []"
  shows "distinct (snake s') \<and> snake s' \<noteq> []"
  using assms tickCallback_snake[of s r s']
  by (auto simp: tick_def split: if_splits)

lemma tick_returns: "snake s \<noteq> [] \<Longrightarrow> \<exists>s'. tick s r = Inr s'"
  by (cases "snake s") (auto simp: tick_def tickCallback_def Let_def)

lemma reachable_snake: "reachable s \<Longrightarrow> distinct (snake s) \<and> snake s \<noteq> []"
proof (induction rule: reachable.induct)
  case r_init
  then show ?case by (simp add: initialState_def START_SNAKE_def GRID_SIZE_def)
next
  case (r_tick s r s')
  then show ?case using tick_snake by blast
next
  case (r_key s k)
  then show ?case by (auto simp: onKey_def split: option.splits Dir.splits)
next
  case (r_touchStart s cx cy)
  then show ?case by (simp add: onTouchStart_def)
next
  case (r_touchEnd s cx cy)
  then show ?case by (auto simp: onTouchEnd_def Let_def split: option.splits)
next
  case (r_pause s)
  then show ?case by (simp add: togglePause_def)
next
  case (r_restart s)
  then show ?case by (simp add: restart_def START_SNAKE_def GRID_SIZE_def)
next
  case (r_add s k)
  then show ?case by (auto simp: addToBuilder_def setBuilder_def Let_def split: option.splits)
next
  case (r_drop s cx cy k)
  then show ?case by (auto simp: onDrop_def setBuilder_def)
next
  case (r_clear s)
  then show ?case by (simp add: clearBuilder_def setBuilder_def)
qed

lemma twoFoodsState_reachable: "reachable twoFoodsState"
  unfolding twoFoodsState_def by (rule r_key, rule r_drop, rule r_drop, rule r_init)

lemma twoFoodsState_tick: "tick twoFoodsState 0 = Inr ateState"
  by (simp add: ateState_def twoFoodsState_eq engine_defs randomEmptyCell_0)

lemma ateState_reachable: "reachable ateState"
  using twoFoodsState_reachable twoFoodsState_tick by (rule r_tick)

lemma handle_reachable: "reachable s \<Longrightarrow> handle s e = Inr s' \<Longrightarrow> reachable s'"
  by (cases e) (auto intro: reachable.intros)

lemma run_reachable: "reachable s \<Longrightarrow> run s es = Inr s' \<Longrightarrow> reachable s'"
proof (induction es arbitrary: s)
  case Nil
  then show ?case by simp
next
  case (Cons e es)
  then show ?case
    by (auto split: sum.splits dest: handle_reachable)
qed

lemma plainState_run: "run initialState plainPath = Inr plainState"
  by (simp add: plainPath_def plainState_def engine_defs)

lemma plainState_reachable: "reachable plainState"
  using r_init plainState_run by (rule run_reachable)

lemma wallState_run:
  "run plainState [Tick 0, Tick 0, Tick 0, Tick 0, Tick 0, Tick 0, Tick 0, Tick 0, Tick 0]
     = Inr wallState"
  by (simp add: wallState_def plainState_def engine_defs)

lemma wallState_reachable: "reachable wallState"
  using plainState_reachable wallState_run by (rule run_reachable)

lemma fixtureState_reachable: "reachable fixtureState"
  unfolding fixtureState_def by (rule r_drop, rule r_init)

lemma headFirstState_reachable: "reachable headFirstState"
  unfolding headFirstState_def using plainState_reachable by (rule r_drop)

lemma obstacleState_reachable: "reachable obstacleState"
  unfolding obstacleState_def using plainState_reachable by (rule r_drop)

lemma eatingState_reachable: "reachable eatingState"
  unfolding eatingState_def using plainState_reachable by (rule r_drop)

lemma headFirstState_eq:
  "headFirstState = \<lparr>builder = [\<lparr>cell_x = 15, cell_y = 10, kind = Food\<rparr>],
      snake = [cell 10 10, cell 9 10, cell 8 10], dir = RIGHT, foods = [cell 15 10],
      obstacles = [], speed = 8, paused = False, gameOver = False, score = 0, touchStart = None\<rparr>"
  by (simp add: headFirstState_def plainState_def engine_defs)


lemma onKey_refines_accept:
  "keyToDir k = Some nd \<Longrightarrow> dir (onKey s k) = accept_spec (dir s) nd"
  by (cases "dir s"; cases nd; simp add: onKey_def opposite_def accept_spec_def reverse_def)

text \<open>An arrow key that is no reversal keeps the live engine and the browser artifact in
  the same game.\<close>

lemma sameGame_arrow:
  assumes "sameGame s h" and "keyToDir k = Some nd" and "html_keyMap k = Some ks"
    and "\<not> opposite (dir s) nd"
  shows "sameGame (onKey s k) (html_onKeydown h k)"
  using assms
  by (cases nd)
    (auto simp: sameGame_def onKey_def html_onKeydown_def keyToDir_def html_keyMap_def delta_def
      split: if_splits)

lemma onKey_ignores_unknown: "keyToDir k = None \<Longrightarrow> onKey s k = s"
  by (simp add: onKey_def)

lemma set_emptyCells:
  "set (emptyCells occupied g) =
     {c. 0 \<le> pos_x c \<and> pos_x c < g \<and> 0 \<le> pos_y c \<and> pos_y c < g \<and> keyFor c \<notin> occupied}"
proof (rule set_eqI)
  fix c :: Position
  have c: "c = cell (pos_x c) (pos_y c)" by simp
  show "c \<in> set (emptyCells occupied g) \<longleftrightarrow>
        c \<in> {c. 0 \<le> pos_x c \<and> pos_x c < g \<and> 0 \<le> pos_y c \<and> pos_y c < g \<and> keyFor c \<notin> occupied}"
    by (subst (1 2) c) (auto simp: emptyCells_def keyFor_def split: if_splits)
qed

lemma randomEmptyCell_free:
  assumes "randomEmptyCell occupied g r = Some c"
  shows "keyFor c \<notin> occupied \<and> 0 \<le> pos_x c \<and> pos_x c < g \<and> 0 \<le> pos_y c \<and> pos_y c < g"
proof -
  from assms have "c \<in> set (emptyCells occupied g)"
    by (auto simp: randomEmptyCell_def Let_def split: if_splits)
  then show ?thesis
    by (simp add: set_emptyCells)
qed

lemma randomEmptyCell_none:
  assumes "randomEmptyCell occupied g r = None" and "r < length (emptyCells occupied g)"
  shows False
  using assms by (auto simp: randomEmptyCell_def Let_def split: if_splits)

lemma emptyCells_Nil_iff:
  "emptyCells occupied g = [] \<longleftrightarrow>
     (\<forall>cx cy. 0 \<le> cx \<and> cx < g \<and> 0 \<le> cy \<and> cy < g \<longrightarrow> (cx, cy) \<in> occupied)"
proof -
  have "emptyCells occupied g = [] \<longleftrightarrow> set (emptyCells occupied g) = {}"
    by simp
  also have "\<dots> \<longleftrightarrow> (\<forall>cx cy. 0 \<le> cx \<and> cx < g \<and> 0 \<le> cy \<and> cy < g \<longrightarrow> (cx, cy) \<in> occupied)"
    unfolding set_emptyCells
  proof
    assume e: "{c. 0 \<le> pos_x c \<and> pos_x c < g \<and> 0 \<le> pos_y c \<and> pos_y c < g \<and> keyFor c \<notin> occupied} = {}"
    show "\<forall>cx cy. 0 \<le> cx \<and> cx < g \<and> 0 \<le> cy \<and> cy < g \<longrightarrow> (cx, cy) \<in> occupied"
    proof (intro allI impI)
      fix cx cy assume "0 \<le> cx \<and> cx < g \<and> 0 \<le> cy \<and> cy < g"
      with e have "\<not> keyFor (cell cx cy) \<notin> occupied"
        by (auto simp del: not_not)
      then show "(cx, cy) \<in> occupied" by (simp add: keyFor_def)
    qed
  next
    assume "\<forall>cx cy. 0 \<le> cx \<and> cx < g \<and> 0 \<le> cy \<and> cy < g \<longrightarrow> (cx, cy) \<in> occupied"
    then show "{c. 0 \<le> pos_x c \<and> pos_x c < g \<and> 0 \<le> pos_y c \<and> pos_y c < g \<and> keyFor c \<notin> occupied} = {}"
      by (auto simp: keyFor_def)
  qed
  finally show ?thesis .
qed

lemma randomEmptyCell_live:
  assumes "r < length (emptyCells occupied g) \<or> emptyCells occupied g = []"
  shows "case randomEmptyCell occupied g r of
           Some c \<Rightarrow> keyFor c \<notin> occupied \<and> 0 \<le> pos_x c \<and> pos_x c < g \<and> 0 \<le> pos_y c \<and> pos_y c < g
         | None \<Rightarrow> (\<forall>cx cy. 0 \<le> cx \<and> cx < g \<and> 0 \<le> cy \<and> cy < g \<longrightarrow> (cx, cy) \<in> occupied)"
proof (cases "randomEmptyCell occupied g r")
  case None
  with assms have "emptyCells occupied g = []"
    using randomEmptyCell_none by blast
  with None show ?thesis by (simp add: emptyCells_Nil_iff)
next
  case (Some c)
  with randomEmptyCell_free[OF Some] show ?thesis by simp
qed

text \<open>With a food or an obstacle exported into it, the drawing of the Python loop raises a
  KeyError: the cells are dictionaries and have no item \<open>0\<close>.\<close>

lemma py_drawAll_json: "cells \<noteq> [] \<Longrightarrow> py_drawAll (jsonCells cells) = Inl KeyError"
  by (cases cells) (simp_all add: jsonCells_def py_rect_def)

lemma py_draw_raises:
  assumes "py_foods p = jsonCells fs" and "py_obstacles p = jsonCells obs"
    and "fs \<noteq> [] \<or> obs \<noteq> []"
  shows "py_draw p = Inl KeyError"
proof (cases "fs = []")
  case True
  with assms have "py_drawAll (py_foods p) = Inr ()" and "py_drawAll (py_obstacles p) = Inl KeyError"
    by (simp_all add: py_drawAll_json) (simp add: jsonCells_def)
  then show ?thesis
    by (simp add: py_draw_def)
next
  case False
  with assms have "py_drawAll (py_foods p) = Inl KeyError"
    by (simp add: py_drawAll_json)
  then show ?thesis
    by (simp add: py_draw_def)
qed













lemma played_reachable: "played s \<Longrightarrow> reachable s"
  by (induction rule: played.induct) (auto intro: reachable.intros)

lemma tickCallback_obstacles:
  assumes "tickCallback s r = Inr s'" and "set (obstacles s) \<inter> set (snake s) = {}"
  shows "obstacles s' = obstacles s \<and> set (obstacles s') \<inter> set (snake s') = {}"
  using assms
  by (auto simp: tickCallback_def Let_def occupies_mem split: list.splits if_splits
      dest!: in_set_butlastD)

lemma tick_validConfig:
  assumes "tick s r = Inr s'" and "validConfig s"
  shows "validConfig s'"
proof (cases "paused s \<or> gameOver s")
  case True
  with assms show ?thesis by (simp add: tick_def)
next
  case False
  with assms(1) have cb: "tickCallback s r = Inr s'" by (simp add: tick_def)
  from assms(2) have "set (obstacles s) \<inter> set (snake s) = {}"
    by (simp add: validConfig_def)
  from tickCallback_obstacles[OF cb this]
  have "obstacles s' = obstacles s" and "set (obstacles s') \<inter> set (snake s') = {}"
    by blast+
  with assms(2) show ?thesis
    by (simp add: validConfig_def)
qed

lemma played_valid: "played s \<Longrightarrow> validConfig s"
proof (induction rule: played.induct)
  case p_init
  then show ?case
    by (simp add: validConfig_def initialState_def initialObstacles_def)
next
  case (p_tick s r s')
  then show ?case using tick_validConfig by blast
next
  case (p_key s k)
  then show ?case by (auto simp: validConfig_def onKey_def split: option.splits Dir.splits)
next
  case (p_touchStart s cx cy)
  then show ?case by (simp add: validConfig_def onTouchStart_def)
next
  case (p_touchEnd s cx cy)
  then show ?case by (auto simp: validConfig_def onTouchEnd_def Let_def split: option.splits)
next
  case (p_pause s)
  then show ?case by (simp add: validConfig_def togglePause_def)
next
  case (p_restart s)
  then show ?case by (auto simp: validConfig_def restart_def)
next
  case (p_add s k)
  then show ?case by simp
next
  case (p_drop s cx cy k)
  then show ?case by simp
next
  case (p_clear s)
  then show ?case by (simp add: validConfig_def clearBuilder_def setBuilder_def)
qed

lemma tick_one_cell:
  assumes "status s = RUNNING" and "snake s = [c]"
  shows "\<exists>s'. tick s r = Inr s' \<and>
           (gameOver s' \<longleftrightarrow>
              hitsWall (nextX c (dir s)) (nextY c (dir s)) \<or>
              occupies (obstacles s) (nextX c (dir s)) (nextY c (dir s)))"
proof -
  from assms(1) have "\<not> paused s" and "\<not> gameOver s"
    by (auto simp: status_def split: if_splits)
  moreover have "\<not> occupies [c] (nextX c (dir s)) (nextY c (dir s))"
    by (cases "dir s") (auto simp: occupies_def nextX_def nextY_def)
  ultimately show ?thesis
    using assms(2) by (auto simp: tick_def tickCallback_def Let_def)
qed

lemma tick_premove_body:
  assumes "status s = RUNNING" and "snake s = head # rest"
    and "cell (nextX head (dir s)) (nextY head (dir s)) \<in> set (snake s)"
  shows "tick s r = Inr (s\<lparr>gameOver := True\<rparr>)"
proof -
  from assms(1) have "\<not> paused s" and "\<not> gameOver s"
    by (auto simp: status_def split: if_splits)
  with assms(2,3) show ?thesis
    by (auto simp: tick_def tickCallback_def Let_def occupies_mem)
qed

lemma guardedState_played: "played guardedState"
proof -
  have "validConfig (onDrop initialState 5 5 Obstacle)"
    by (simp add: validConfig_def engine_defs)
  with p_init have "played (onDrop initialState 5 5 Obstacle)"
    by (rule p_drop)
  then show ?thesis
    unfolding guardedState_def by (rule p_key)
qed


section \<open>The claims\<close>






text \<open>
  C2 (determinism fixture), as amended. With the snake listed head first,
  \<open>[(10,10), (9,10), (8,10)]\<close>, direction RIGHT, no obstacle and the food at \<open>(15, 10)\<close>,
  exactly 5 ticks without direction input leave the run RUNNING with the head at
  \<open>(15, 10)\<close>, score 1 and a snake of length 4, whatever the spawner draws.
\<close>

theorem determinism_fixture_head_first:
  "reachable headFirstState \<and> GRID_SIZE = 20 \<and>
   snake headFirstState = [cell 10 10, cell 9 10, cell 8 10] \<and> dir headFirstState = RIGHT \<and>
   obstacles headFirstState = [] \<and> foods headFirstState = [cell 15 10] \<and>
   (\<exists>s'. ticks headFirstState [r1, r2, r3, r4, r5] = Inr s' \<and> status s' = RUNNING \<and>
      hd (snake s') = cell 15 10 \<and> score s' = 1 \<and> length (snake s') = 4)"
  using headFirstState_reachable by (simp add: headFirstState_eq engine_defs)

text \<open>
  The fixture as the claim states it: the head \<open>(9, 10)\<close> is the first cell and the
  candidate head \<open>(10, 10)\<close> is the second cell of the snake, so the first tick is a
  self-collision and the other four change nothing.
\<close>

theorem determinism_fixture_counterexample:
  "reachable fixtureState \<and> GRID_SIZE = 20 \<and>
   snake fixtureState = [cell 9 10, cell 10 10, cell 11 10] \<and> dir fixtureState = RIGHT \<and>
   obstacles fixtureState = [] \<and> foods fixtureState = [cell 15 10] \<and>
   (\<exists>s'. ticks fixtureState [0, 0, 0, 0, 0] = Inr s' \<and> status s' = GAME_OVER \<and>
      hd (snake s') = cell 9 10 \<and> hd (snake s') \<noteq> cell 15 10 \<and>
      score s' = 0 \<and> length (snake s') = 3)"
  using fixtureState_reachable by (simp add: fixtureState_eq engine_defs)

text \<open>
  C3 (direction filter). The keyboard handler of the live engine is the filter of the
  specification; the keydown listener of the browser artifact is not. It compares the
  heading object with the strings UP, DOWN, LEFT and RIGHT, which never succeeds, and so
  it accepts every reversal: from the exported heading RIGHT, ArrowLeft turns the snake
  LEFT, and after ArrowUp, ArrowDown turns it DOWN.
\<close>

theorem html_keydown_accepts_reversal:
  "h_dir (fst (doExport initialState)) = cell 1 0 \<and> accept_spec RIGHT LEFT = RIGHT \<and>
   h_dir (html_onKeydown (fst (doExport initialState)) ''ArrowLeft'') = cell (-1) 0 \<and>
   h_dir (html_onKeydown (fst (doExport initialState)) ''ArrowUp'') = cell 0 (-1) \<and>
   accept_spec UP DOWN = UP \<and> accept_spec UP LEFT = LEFT \<and>
   h_dir (html_onKeydown (html_onKeydown (fst (doExport initialState)) ''ArrowUp'') ''ArrowDown'')
     = cell 0 1"
  by (simp add: doExport_def exportHTML_def html_onKeydown_def html_keyMap_def accept_spec_def
      reverse_def)

text \<open>
  C4 (wall collision). In every RUNNING state whose candidate head (the head plus the
  delta of the pending direction) lies outside \<open>[0, GRID_SIZE)\<close> on either axis, the tick
  returns the state with only the game-over flag set: the status becomes GAME_OVER and
  the snake, the foods and the score are the ones before the tick, whatever else the
  candidate head touches.
\<close>

theorem wall_collision:
  assumes "status s = RUNNING" and "snake s = head # rest"
    and "cand = (pos_x head + fst (delta (dir s)), pos_y head + snd (delta (dir s)))"
    and "\<not> (0 \<le> fst cand \<and> fst cand < GRID_SIZE \<and> 0 \<le> snd cand \<and> snd cand < GRID_SIZE)"
  shows "tick s r = Inr (s\<lparr>gameOver := True\<rparr>) \<and> status (s\<lparr>gameOver := True\<rparr>) = GAME_OVER \<and>
         snake (s\<lparr>gameOver := True\<rparr>) = snake s \<and> foods (s\<lparr>gameOver := True\<rparr>) = foods s \<and>
         score (s\<lparr>gameOver := True\<rparr>) = score s"
proof -
  from assms(1) have "\<not> paused s" and "\<not> gameOver s"
    by (auto simp: status_def split: if_splits)
  with assms(2-4) show ?thesis
    by (auto simp: tick_def tickCallback_def Let_def hitsWall_def next_delta status_def)
qed

text \<open>The head at \<open>(19, 10)\<close> moving RIGHT on the grid of size 20.\<close>

theorem wall_collision_witness:
  "reachable wallState \<and> status wallState = RUNNING \<and>
   snake wallState = cell 19 10 # [cell 18 10, cell 17 10] \<and> dir wallState = RIGHT \<and>
   GRID_SIZE = 20 \<and>
   tick wallState 0 = Inr (wallState\<lparr>gameOver := True\<rparr>) \<and>
   status (wallState\<lparr>gameOver := True\<rparr>) = GAME_OVER \<and>
   score (wallState\<lparr>gameOver := True\<rparr>) = score wallState"
proof -
  have running: "status wallState = RUNNING"
    by (simp add: wallState_def initialState_def status_def)
  have body: "snake wallState = cell 19 10 # [cell 18 10, cell 17 10]"
    by (simp add: wallState_def)
  have heading: "dir wallState = RIGHT"
    by (simp add: wallState_def initialState_def)
  have cand: "(20, 10) = (pos_x (cell 19 10) + fst (delta (dir wallState)),
      pos_y (cell 19 10) + snd (delta (dir wallState)))"
    by (simp add: heading delta_def)
  have off: "\<not> (0 \<le> fst (20 :: int, 10 :: int) \<and> fst (20 :: int, 10 :: int) < GRID_SIZE \<and>
      0 \<le> snd (20 :: int, 10 :: int) \<and> snd (20 :: int, 10 :: int) < GRID_SIZE)"
    by (simp add: GRID_SIZE_def)
  from wall_collision[OF running body cand off, of 0] wallState_reachable running body heading
  show ?thesis
    by (simp add: GRID_SIZE_def)
qed

text \<open>
  C5 (snake length per tick). A tick applied in the RUNNING state returns, and when it does
  not end in GAME_OVER: if the candidate head is a food cell the snake is one cell longer
  (the tail stays) and the score one higher; otherwise the length, and the score, is the
  one before the tick.
\<close>

theorem snake_length_per_tick:
  assumes "status s = RUNNING" and "snake s = head # rest"
    and "cand = cell (pos_x head + fst (delta (dir s))) (pos_y head + snd (delta (dir s)))"
  shows "\<exists>s'. tick s r = Inr s' \<and>
           (status s' \<noteq> GAME_OVER \<longrightarrow>
              (if cand \<in> set (foods s)
               then length (snake s') = length (snake s) + 1 \<and> score s' = score s + 1
               else length (snake s') = length (snake s) \<and> score s' = score s))"
proof -
  from assms(1) have "\<not> paused s" and "\<not> gameOver s"
    by (auto simp: status_def split: if_splits)
  then show ?thesis
    using assms(2,3)
    by (auto simp: tick_def tickCallback_def Let_def findIndex_ge0 next_delta occupies_mem
        occupies_def[symmetric] status_def)
qed

text \<open>An eating tick: the snake \<open>[(10,10), (9,10), (8,10)]\<close> moving RIGHT onto the food
  at \<open>(11, 10)\<close>.\<close>

theorem snake_length_per_tick_witness:
  "reachable eatingState \<and> status eatingState = RUNNING \<and> snake eatingState = cell 10 10 # [cell 9 10, cell 8 10] \<and>
   cell 11 10 \<in> set (foods eatingState) \<and>
   tick eatingState 0 = Inr eatenState \<and> status eatenState \<noteq> GAME_OVER \<and>
   length (snake eatenState) = length (snake eatingState) + 1 \<and>
   score eatenState = score eatingState + 1"
proof -
  have running: "status eatingState = RUNNING"
    by (simp add: eatingState_eq status_def)
  have body: "snake eatingState = cell 10 10 # [cell 9 10, cell 8 10]"
    by (simp add: eatingState_eq)
  have cand: "cell 11 10 = cell (pos_x (cell 10 10) + fst (delta (dir eatingState)))
      (pos_y (cell 10 10) + snd (delta (dir eatingState)))"
    by (simp add: eatingState_eq delta_def)
  have step: "tick eatingState 0 = Inr eatenState"
    by (simp add: eatenState_def eatingState_eq engine_defs randomEmptyCell_0)
  have alive: "status eatenState \<noteq> GAME_OVER"
    by (simp add: eatenState_def eatingState_eq status_def)
  have food: "cell 11 10 \<in> set (foods eatingState)"
    by (simp add: eatingState_eq)
  from snake_length_per_tick[OF running body cand, of 0] step alive food
  have "length (snake eatenState) = length (snake eatingState) + 1 \<and>
        score eatenState = score eatingState + 1"
    by auto
  with eatingState_reachable running body step alive food show ?thesis
    by blast
qed

text \<open>
  C6 (food spawner). The spawner of the live engine returns a free cell of the grid, and
  none only when no cell is free (lemma \<open>randomEmptyCell_live\<close>). The spawn of the browser
  artifact does not: when its first cell is taken and fewer than 5 foods are left it adds
  its second cell unchecked, here the snake cell \<open>(10, 10)\<close>; and when its first cell is
  taken and 5 foods are left it adds nothing, free cells or not.
\<close>

theorem html_spawn_overlaps:
  "reachable eatingState \<and>
   (\<exists>h'. html_step (fst (doExport eatingState)) takenDraws = Inr h' \<and>
      h_foods h' = [cell 10 10] \<and> cell 10 10 \<in> set (h_snake h') \<and>
      keyFor (cell 10 10) \<in> html_occupied (h_snake h') (h_obstacles h')) \<and>
   html_spawn (html_occupied [cell 11 10, cell 10 10] [])
      [cell 0 0, cell 1 0, cell 2 0, cell 3 0, cell 4 0] takenDraws
     = [cell 0 0, cell 1 0, cell 2 0, cell 3 0, cell 4 0]"
  using eatingState_reachable
  by (simp add: eatingState_eq doExport_def exportHTML_def exportConfig_def html_step_def
      html_spawn_def html_occupied_def takenDraws_def keyFor_def splice1_def GRID_SIZE_def)

text \<open>
  C7 (snake cells), as amended. In every state played from the first render with every
  builder placement leaving the obstacles off the snake and off the initial snake, the
  snake is non-empty, no two snake cells are equal and no snake cell equals an obstacle
  cell; every tick returns and stays in such a state. The self-collision check of the tick
  is evaluated against the pre-move body: in a RUNNING state a candidate head on any cell
  of the snake before the move ends the game and leaves the rest of the state as it is, and
  the tick of a snake of length 1 ends in game over only for a wall or an obstacle, never
  for a self-collision, whatever its direction.
\<close>

theorem snake_cells_invariant:
  assumes "played s"
  shows "distinct (snake s) \<and> snake s \<noteq> [] \<and> set (snake s) \<inter> set (obstacles s) = {} \<and>
         (\<forall>r. \<exists>s'. tick s r = Inr s' \<and> played s') \<and>
         (\<forall>t c r. status t = RUNNING \<and> snake t = [c] \<longrightarrow>
            (\<exists>t'. tick t r = Inr t' \<and>
               (gameOver t' \<longleftrightarrow>
                  hitsWall (nextX c (dir t)) (nextY c (dir t)) \<or>
                  occupies (obstacles t) (nextX c (dir t)) (nextY c (dir t))))) \<and>
         (\<forall>t head rest r. status t = RUNNING \<and> snake t = head # rest \<and>
            cell (nextX head (dir t)) (nextY head (dir t)) \<in> set (snake t) \<longrightarrow>
            tick t r = Inr (t\<lparr>gameOver := True\<rparr>))"
proof -
  have d: "distinct (snake s)" "snake s \<noteq> []"
    using reachable_snake[OF played_reachable[OF assms]] by auto
  have v: "set (snake s) \<inter> set (obstacles s) = {}"
    using played_valid[OF assms] by (auto simp: validConfig_def)
  have step: "\<exists>s'. tick s r = Inr s' \<and> played s'" for r
    using tick_returns[OF d(2), of r] assms by (auto intro: p_tick)
  from d v step tick_one_cell tick_premove_body show ?thesis
    by blast
qed


text \<open>A played state with an obstacle off the snake; a snake of one cell that moves on; and
  the first render, whose candidate head \<open>(10, 10)\<close> is the second cell of the snake.\<close>

theorem snake_cells_invariant_witness:
  "played guardedState \<and> obstacles guardedState = [cell 5 5] \<and>
   snake guardedState = [cell 9 10, cell 10 10, cell 11 10] \<and>
   distinct (snake guardedState) \<and> set (snake guardedState) \<inter> set (obstacles guardedState) = {} \<and>
   (\<exists>s'. tick guardedState 0 = Inr s' \<and> played s') \<and>
   status oneCellState = RUNNING \<and> snake oneCellState = [cell 5 5] \<and>
   (\<exists>t'. tick oneCellState 0 = Inr t' \<and> \<not> gameOver t') \<and>
   status initialState = RUNNING \<and> snake initialState = cell 9 10 # [cell 10 10, cell 11 10] \<and>
   cell (nextX (cell 9 10) (dir initialState)) (nextY (cell 9 10) (dir initialState))
     \<in> set (snake initialState) \<and>
   tick initialState 0 = Inr (initialState\<lparr>gameOver := True\<rparr>)"
proof -
  note inv = snake_cells_invariant[OF guardedState_played]
  have obs: "obstacles guardedState = [cell 5 5]"
    and body: "snake guardedState = [cell 9 10, cell 10 10, cell 11 10]"
    by (simp_all add: guardedState_def engine_defs)
  have one: "status oneCellState = RUNNING" "snake oneCellState = [cell 5 5]"
    by (simp_all add: oneCellState_def initialState_def status_def)
  have free: "\<not> (hitsWall (nextX (cell 5 5) (dir oneCellState)) (nextY (cell 5 5) (dir oneCellState)) \<or>
      occupies (obstacles oneCellState) (nextX (cell 5 5) (dir oneCellState))
        (nextY (cell 5 5) (dir oneCellState)))"
    by (simp add: oneCellState_def engine_defs)
  have start: "status initialState = RUNNING"
    "snake initialState = cell 9 10 # [cell 10 10, cell 11 10]"
    "cell (nextX (cell 9 10) (dir initialState)) (nextY (cell 9 10) (dir initialState))
       \<in> set (snake initialState)"
    by (simp_all add: engine_defs)
  from inv have d: "distinct (snake guardedState)"
    and v: "set (snake guardedState) \<inter> set (obstacles guardedState) = {}"
    and step: "\<exists>s'. tick guardedState 0 = Inr s' \<and> played s'"
    by blast+
  from inv one free have alive: "\<exists>t'. tick oneCellState 0 = Inr t' \<and> \<not> gameOver t'"
    by blast
  from inv start have dead: "tick initialState 0 = Inr (initialState\<lparr>gameOver := True\<rparr>)"
    by blast
  from guardedState_played obs body d v step one alive start dead show ?thesis
    by blast
qed

text \<open>Add Obstacle on the first render puts an obstacle on \<open>(10, 10)\<close>, under the snake,
  and the game goes on. An obstacle dropped off the snake on \<open>(11, 10)\<close>, a cell of the
  initial snake, is under the snake after Restart, and the game goes on.\<close>

theorem snake_cells_counterexample:
  "reachable (addToBuilder initialState Obstacle) \<and>
   status (addToBuilder initialState Obstacle) = RUNNING \<and>
   cell 10 10 \<in> set (snake (addToBuilder initialState Obstacle)) \<and>
   cell 10 10 \<in> set (obstacles (addToBuilder initialState Obstacle)) \<and>
   reachable obstacleState \<and> set (snake obstacleState) \<inter> set (obstacles obstacleState) = {} \<and>
   reachable (restart obstacleState) \<and> status (restart obstacleState) = RUNNING \<and>
   cell 11 10 \<in> set (snake (restart obstacleState)) \<and>
   cell 11 10 \<in> set (obstacles (restart obstacleState))"
proof -
  have a: "reachable (addToBuilder initialState Obstacle)"
    by (rule r_add, rule r_init)
  have b: "reachable (restart obstacleState)"
    using obstacleState_reachable by (rule r_restart)
  have c: "status (addToBuilder initialState Obstacle) = RUNNING \<and>
      cell 10 10 \<in> set (snake (addToBuilder initialState Obstacle)) \<and>
      cell 10 10 \<in> set (obstacles (addToBuilder initialState Obstacle))"
    by (simp add: addToBuilder_def engine_defs)
  have d: "set (snake obstacleState) \<inter> set (obstacles obstacleState) = {} \<and>
      status (restart obstacleState) = RUNNING \<and>
      cell 11 10 \<in> set (snake (restart obstacleState)) \<and>
      cell 11 10 \<in> set (obstacles (restart obstacleState))"
    by (simp add: obstacleState_eq restart_def engine_defs)
  from a b c d obstacleState_reachable show ?thesis
    by blast
qed


text \<open>
  C8 (reset), as amended. Restart, from any state, sets the snake to the configuration's
  initial snake \<open>[(9,10), (10,10), (11,10)]\<close>, the direction to RIGHT and the score to 0,
  and clears the game-over flag. It leaves the foods, the obstacles and the pause flag as
  they are: the run is RUNNING afterwards unless it was paused, and then it stays PAUSED.
\<close>

theorem restart_resets:
  "snake (restart s) = initialSnake (exportConfig s) \<and>
   snake (restart s) = [cell 9 10, cell 10 10, cell 11 10] \<and>
   dir (restart s) = RIGHT \<and> score (restart s) = 0 \<and>
   status (restart s) = (if paused s then PAUSED else RUNNING) \<and>
   foods (restart s) = foods s \<and> obstacles (restart s) = obstacles s \<and>
   builder (restart s) = builder s"
  by (simp add: restart_def exportConfig_def START_SNAKE_def GRID_SIZE_def status_def)

text \<open>
  A reachable state: the game paused after the food at \<open>(9, 9)\<close> was eaten. Restart
  leaves it PAUSED, and its foods are not the initial foods of the configuration.
\<close>

theorem restart_counterexample:
  "reachable (togglePause ateState) \<and> status (togglePause ateState) = PAUSED \<and>
   status (restart (togglePause ateState)) = PAUSED \<and>
   foods (restart (togglePause ateState)) = [cell 0 0, cell 0 0] \<and>
   initialFoods (builder (restart (togglePause ateState))) = [cell 9 9, cell 0 0]"
proof -
  have "reachable (togglePause ateState)"
    using ateState_reachable by (rule r_pause)
  then show ?thesis
    by (simp add: togglePause_def restart_def ateState_def twoFoodsState_eq status_def
        initialFoods_def)
qed

text \<open>
  C9 (filtered input from every source). The swipe handler sets the direction without the
  filter: on the first render, heading RIGHT, a swipe of 30 pixels to the left commits
  LEFT, the exact opposite, where the keyboard handler keeps RIGHT for ArrowLeft.
\<close>

theorem swipe_bypasses_filter:
  "dir initialState = RIGHT \<and> accept_spec RIGHT LEFT = RIGHT \<and>
   dir (onKey initialState ''ArrowLeft'') = RIGHT \<and>
   dir (onTouchEnd (onTouchStart initialState 100 100) 70 100) = LEFT \<and>
   opposite (dir initialState) (dir (onTouchEnd (onTouchStart initialState 100 100) 70 100))"
  by (simp add: initialState_def onTouchStart_def onTouchEnd_def onKey_def keyToDir_def
      opposite_def accept_spec_def reverse_def)

text \<open>
  C10 (a spawned food can repeat a food). There is a reachable RUNNING state and a draw for
  which the tick eats and the replacement food is a cell another food already holds: the
  occupied set handed to the spawner holds the new snake and the obstacles, not the
  remaining foods, and the food list ends with the same position twice.
\<close>

theorem spawn_duplicates_food:
  "\<exists>s r s' c. reachable s \<and> status s = RUNNING \<and> tick s r = Inr s' \<and> status s' = RUNNING \<and>
     score s' = score s + 1 \<and> distinct (foods s) \<and> c \<in> set (foods s) \<and> foods s' = [c, c]"
proof -
  have "reachable twoFoodsState \<and> status twoFoodsState = RUNNING \<and>
        tick twoFoodsState 0 = Inr ateState \<and> status ateState = RUNNING \<and>
        score ateState = score twoFoodsState + 1 \<and> distinct (foods twoFoodsState) \<and>
        cell 0 0 \<in> set (foods twoFoodsState) \<and> foods ateState = [cell 0 0, cell 0 0]"
    using twoFoodsState_reachable twoFoodsState_tick
    by (simp add: ateState_def twoFoodsState_eq status_def)
  then show ?thesis by blast
qed

end
